theory Spec2Isabelle
  imports Complex_Main "HOL-Library.Multiset" "HOL-Library.Char_ord" "HOL-Library.List_Lexorder"
begin

section \<open>Python values\<close>

text \<open>
  The values that \<^verbatim>\<open>json.load\<close> and an \<^verbatim>\<open>sqlite3\<close> query hand to the scripts.
  A float is modelled by the rational it denotes (NaN and the infinities are left out), so the
  comparisons of a score with \<^verbatim>\<open>10.0\<close>, \<^verbatim>\<open>9.0\<close>, \<^verbatim>\<open>8.0\<close> and \<^verbatim>\<open>6.0\<close> are exact.
  A string is a list of characters with codes below 256. A JSON object is an association list
  whose keys are strings; \<^verbatim>\<open>d.get(k)\<close> reads the first binding of \<open>k\<close>.
\<close>

datatype pyval =
    PNone
  | PBool bool
  | PInt int
  | PFloat rat
  | PStr string
  | PList "pyval list"
  | PDict "(string \<times> pyval) list"

datatype py_error = KeyError | TypeError | AttributeError | ZeroDivisionError | JSONDecodeError

text \<open>Sequencing of steps that may raise: the first exception ends the computation.\<close>

definition and_then :: "py_error + 'a \<Rightarrow> ('a \<Rightarrow> py_error + 'b) \<Rightarrow> py_error + 'b" where
  "and_then r f = (case r of Inl e \<Rightarrow> Inl e | Inr x \<Rightarrow> f x)"

text \<open>Truth value of an object, as \<^verbatim>\<open>if x:\<close> and \<^verbatim>\<open>x or y\<close> test it.\<close>

fun truthy :: "pyval \<Rightarrow> bool" where
  "truthy PNone = False"
| "truthy (PBool b) = b"
| "truthy (PInt i) = (i \<noteq> 0)"
| "truthy (PFloat r) = (r \<noteq> 0)"
| "truthy (PStr s) = (s \<noteq> [])"
| "truthy (PList xs) = (xs \<noteq> [])"
| "truthy (PDict kv) = (kv \<noteq> [])"

definition py_or :: "pyval \<Rightarrow> pyval \<Rightarrow> pyval" where
  "py_or a b = (if truthy a then a else b)"

text \<open>Numbers: \<^verbatim>\<open>bool\<close> is a subclass of \<^verbatim>\<open>int\<close>, and an int compares with a float by value.\<close>

fun num_of :: "pyval \<Rightarrow> rat option" where
  "num_of (PBool b) = Some (if b then 1 else 0)"
| "num_of (PInt i) = Some (of_int i)"
| "num_of (PFloat r) = Some r"
| "num_of PNone = None"
| "num_of (PStr s) = None"
| "num_of (PList xs) = None"
| "num_of (PDict kv) = None"

text \<open>
  \<^verbatim>\<open>a == b\<close>, as used on dictionary keys and against string and number constants: numbers are
  equal by value, anything else by structure.
\<close>

definition py_eq :: "pyval \<Rightarrow> pyval \<Rightarrow> bool" where
  "py_eq a b =
     (case num_of a of
        Some x \<Rightarrow> (case num_of b of Some y \<Rightarrow> x = y | None \<Rightarrow> False)
      | None \<Rightarrow> (case num_of b of Some y \<Rightarrow> False | None \<Rightarrow> a = b))"

text \<open>\<^verbatim>\<open>a >= c\<close> for a float constant \<open>c\<close>: a \<^verbatim>\<open>TypeError\<close> unless \<open>a\<close> is a number.\<close>

definition py_ge :: "pyval \<Rightarrow> rat \<Rightarrow> py_error + bool" where
  "py_ge a c = (case num_of a of None \<Rightarrow> Inl TypeError | Some x \<Rightarrow> Inr (c \<le> x))"

text \<open>Lists and dictionaries cannot be dictionary keys.\<close>

fun hashable :: "pyval \<Rightarrow> bool" where
  "hashable (PList xs) = False"
| "hashable (PDict kv) = False"
| "hashable v = True"

text \<open>\<^verbatim>\<open>d.get(k)\<close> and \<^verbatim>\<open>d.get(k, default)\<close> on a dictionary.\<close>

definition dict_get :: "(string \<times> pyval) list \<Rightarrow> string \<Rightarrow> pyval \<Rightarrow> pyval" where
  "dict_get kv k d = (case map_of kv k of None \<Rightarrow> d | Some v \<Rightarrow> v)"

text \<open>
  \<^verbatim>\<open>str(x)\<close>: a string is returned as it is. How Python prints the other values (the shortest
  decimal of a float, the \<^verbatim>\<open>repr\<close> of a list) is a parameter \<open>str_of\<close> of every function that
  calls \<^verbatim>\<open>str\<close>; the theorems hold whatever it returns.
\<close>

definition py_str :: "(pyval \<Rightarrow> string) \<Rightarrow> pyval \<Rightarrow> string" where
  "py_str str_of x = (case x of PStr s \<Rightarrow> s | _ \<Rightarrow> str_of x)"

text \<open>A printing of the values that are not strings, for the examples; none of them depends on it.\<close>

fun str_plain :: "pyval \<Rightarrow> string" where
  "str_plain PNone = ''None''"
| "str_plain (PBool b) = (if b then ''True'' else ''False'')"
| "str_plain (PStr s) = s"
| "str_plain v = ''?''"

subsection \<open>Strings\<close>

text \<open>
  \<^verbatim>\<open>str.isspace\<close>, \<^verbatim>\<open>str.strip\<close> and \<^verbatim>\<open>str.lower\<close> on the code points below 256: the white
  space is 9 to 13, 28 to 32, 133 and 160; the capitals are A to Z and 192 to 222 without 215.
\<close>

definition py_isspace :: "char \<Rightarrow> bool" where
  "py_isspace c = (let n = (of_char c :: nat) in
     (9 \<le> n \<and> n \<le> 13) \<or> (28 \<le> n \<and> n \<le> 32) \<or> n = 133 \<or> n = 160)"

definition strip :: "string \<Rightarrow> string" where
  "strip s = rev (dropWhile py_isspace (rev (dropWhile py_isspace s)))"

definition lower_char :: "char \<Rightarrow> char" where
  "lower_char c = (let n = (of_char c :: nat) in
     if (65 \<le> n \<and> n \<le> 90) \<or> (192 \<le> n \<and> n \<le> 222 \<and> n \<noteq> 215)
     then char_of (n + 32) else c)"

definition lower :: "string \<Rightarrow> string" where
  "lower s = map lower_char s"

text \<open>\<^verbatim>\<open>sub in s\<close> on strings.\<close>

fun starts_with :: "string \<Rightarrow> string \<Rightarrow> bool" where
  "starts_with [] s = True"
| "starts_with (p # ps) [] = False"
| "starts_with (p # ps) (c # cs) = (p = c \<and> starts_with ps cs)"

fun contains :: "string \<Rightarrow> string \<Rightarrow> bool" where
  "contains sub [] = (sub = [])"
| "contains sub (c # cs) = (starts_with sub (c # cs) \<or> contains sub cs)"

definition ends_with :: "string \<Rightarrow> string \<Rightarrow> bool" where
  "ends_with suf s = starts_with (rev suf) (rev s)"

section \<open>The field normalizer of the dataset analysis\<close>

text \<open>
  \<^verbatim>\<open>
  def _get(q: dict, *path: str, default=None):
      cur = q
      for key in path:
          if not isinstance(cur, dict) or key not in cur:
              return default
          cur = cur[key]
      return cur
  \<close>
\<close>

fun get :: "pyval \<Rightarrow> string list \<Rightarrow> pyval \<Rightarrow> pyval" where
  "get cur [] d = cur"
| "get (PDict kv) (key # path) d =
     (case map_of kv key of None \<Rightarrow> d | Some v \<Rightarrow> get v path d)"
| "get cur (key # path) d = d"

text \<open>
  \<^verbatim>\<open>
  def _norm_str(x) -> str:
      if x is None:
          return ""
      return str(x).strip()

  def _norm_difficulty(x) -> str:
      s = _norm_str(x).lower()
      if s in {"easy", "e"}:
          return "EASY"
      if s in {"medium", "med", "m"}:
          return "MEDIUM"
      if s in {"hard", "h"}:
          return "HARD"
      return "UNKNOWN"
  \<close>
\<close>

definition norm_str :: "(pyval \<Rightarrow> string) \<Rightarrow> pyval \<Rightarrow> string" where
  "norm_str str_of x = (if x = PNone then [] else strip (py_str str_of x))"

definition norm_difficulty :: "(pyval \<Rightarrow> string) \<Rightarrow> pyval \<Rightarrow> string" where
  "norm_difficulty str_of x =
     (let s = lower (norm_str str_of x) in
      if s \<in> {''easy'', ''e''} then ''EASY''
      else if s \<in> {''medium'', ''med'', ''m''} then ''MEDIUM''
      else if s \<in> {''hard'', ''h''} then ''HARD''
      else ''UNKNOWN'')"

section \<open>The report statistics\<close>

subsection \<open>Counters\<close>

text \<open>
  A \<^verbatim>\<open>defaultdict(int)\<close> is a list of keys with their counts, in insertion order.
  \<^verbatim>\<open>d[k] += 1\<close> adds one to the count of the key equal to \<open>k\<close> or appends \<open>k\<close> with count 1;
  it raises \<^verbatim>\<open>TypeError\<close> on a key that cannot be hashed. Reading \<^verbatim>\<open>d[k]\<close> returns 0 for
  a key that is not there and inserts it.
\<close>

type_synonym counter = "(pyval \<times> nat) list"

fun incr :: "pyval \<Rightarrow> counter \<Rightarrow> counter" where
  "incr k [] = [(k, 1)]"
| "incr k ((k', n) # m) = (if py_eq k' k then (k', n + 1) # m else (k', n) # incr k m)"

fun count_of :: "pyval \<Rightarrow> counter \<Rightarrow> nat" where
  "count_of k [] = 0"
| "count_of k ((k', n) # m) = (if py_eq k' k then n else count_of k m)"

fun touch :: "pyval \<Rightarrow> counter \<Rightarrow> counter" where
  "touch k [] = [(k, 0)]"
| "touch k ((k', n) # m) = (if py_eq k' k then (k', n) # m else (k', n) # touch k m)"

definition touch_all :: "pyval list \<Rightarrow> counter \<Rightarrow> counter" where
  "touch_all ks m = fold touch ks m"

text \<open>\<^verbatim>\<open>sum(d.values())\<close>\<close>

definition sum_values :: "counter \<Rightarrow> nat" where
  "sum_values m = sum_list (map snd m)"

subsection \<open>Records of the two sources\<close>

text \<open>
  A case is a row of the query
  \<^verbatim>\<open>SELECT id, pearlLevel, groundTruth, difficulty, trapType, finalScore, ... FROM Question\<close>
  (an \<^verbatim>\<open>sqlite3.Row\<close>, read by column name) or an element of the exported dataset's
  \<^verbatim>\<open>cases\<close> array (any JSON value; a \<^verbatim>\<open>dict\<close> when well formed).
\<close>

record row =
  col_pearlLevel :: pyval
  col_groundTruth :: pyval
  col_difficulty :: pyval
  col_trapType :: pyval
  col_finalScore :: pyval

datatype pycase = Row row | Obj pyval

text \<open>
  \<^verbatim>\<open>
  if isinstance(case, dict):
      pearl = case.get('pearlLevel') or case.get('pearl_level')
      diff = case.get('difficulty')
      label = case.get('groundTruth') or case.get('label')
      trap_obj = case.get('trap', {})
      trap = case.get('trapType') or (trap_obj.get('type', '') if isinstance(trap_obj, dict) else '')
      score = case.get('finalScore') or case.get('final_score')
  else:
      pearl = case['pearlLevel']
      diff = case['difficulty']
      label = case['groundTruth']
      trap = case['trapType'] or ''
      score = case['finalScore']
  \<close>
  A JSON value that is not a \<^verbatim>\<open>dict\<close> takes the second branch, where subscripting it by a
  string raises \<^verbatim>\<open>TypeError\<close>.
\<close>

definition dict_pearl :: "(string \<times> pyval) list \<Rightarrow> pyval" where
  "dict_pearl kv = py_or (dict_get kv ''pearlLevel'' PNone) (dict_get kv ''pearl_level'' PNone)"

definition dict_label :: "(string \<times> pyval) list \<Rightarrow> pyval" where
  "dict_label kv = py_or (dict_get kv ''groundTruth'' PNone) (dict_get kv ''label'' PNone)"

definition dict_trap :: "(string \<times> pyval) list \<Rightarrow> pyval" where
  "dict_trap kv =
     py_or (dict_get kv ''trapType'' PNone)
       (case dict_get kv ''trap'' (PDict []) of
          PDict t \<Rightarrow> dict_get t ''type'' (PStr [])
        | _ \<Rightarrow> PStr [])"

definition dict_score :: "(string \<times> pyval) list \<Rightarrow> pyval" where
  "dict_score kv = py_or (dict_get kv ''finalScore'' PNone) (dict_get kv ''final_score'' PNone)"

record fields =
  f_pearl :: pyval
  f_diff :: pyval
  f_label :: pyval
  f_trap :: pyval
  f_score :: pyval

fun read_case :: "pycase \<Rightarrow> py_error + fields" where
  "read_case (Obj (PDict kv)) =
     Inr \<lparr>f_pearl = dict_pearl kv, f_diff = dict_get kv ''difficulty'' PNone,
          f_label = dict_label kv, f_trap = dict_trap kv, f_score = dict_score kv\<rparr>"
| "read_case (Obj v) = Inl TypeError"
| "read_case (Row r) =
     Inr \<lparr>f_pearl = col_pearlLevel r, f_diff = col_difficulty r,
          f_label = col_groundTruth r, f_trap = py_or (col_trapType r) (PStr []),
          f_score = col_finalScore r\<rparr>"

subsection \<open>calculate\_stats\<close>

text \<open>
  The dictionary \<^verbatim>\<open>stats\<close>. Its entry \<^verbatim>\<open>difficulty_by_level\<close> is a plain \<^verbatim>\<open>dict\<close> with
  exactly the keys \<^verbatim>\<open>'L1'\<close>, \<^verbatim>\<open>'L2'\<close>, \<^verbatim>\<open>'L3'\<close>: the three counters, in that order.
\<close>

record stats =
  total_cases :: nat
  pearl_level :: counter
  difficulty :: counter
  label :: counter
  trap_prefix :: counter
  l1_labels :: counter
  l2_labels :: counter
  l3_labels :: counter
  score_ranges :: counter
  difficulty_by_level :: "counter \<times> counter \<times> counter"

definition empty_stats :: "nat \<Rightarrow> stats" where
  "empty_stats n =
     \<lparr>total_cases = n, pearl_level = [], difficulty = [], label = [], trap_prefix = [],
      l1_labels = [], l2_labels = [], l3_labels = [], score_ranges = [],
      difficulty_by_level = ([], [], [])\<rparr>"

text \<open>
  \<^verbatim>\<open>diff_normalized = diff if diff in ['Easy', 'Medium', 'Hard'] else 'Unknown'\<close>
\<close>

definition diff_normalized :: "pyval \<Rightarrow> pyval" where
  "diff_normalized diff =
     (if list_ex (py_eq diff) [PStr ''Easy'', PStr ''Medium'', PStr ''Hard'']
      then diff else PStr ''Unknown'')"

text \<open>
  \<^verbatim>\<open>stats['difficulty_by_level'][pearl][diff_normalized] += 1\<close>: a \<^verbatim>\<open>KeyError\<close> when
  \<open>pearl\<close> is none of the three keys.
\<close>

definition by_level_incr ::
  "pyval \<Rightarrow> pyval \<Rightarrow> counter \<times> counter \<times> counter \<Rightarrow> py_error + counter \<times> counter \<times> counter" where
  "by_level_incr pearl d bl =
     (case bl of (c1, c2, c3) \<Rightarrow>
        if py_eq (PStr ''L1'') pearl then Inr (incr d c1, c2, c3)
        else if py_eq (PStr ''L2'') pearl then Inr (c1, incr d c2, c3)
        else if py_eq (PStr ''L3'') pearl then Inr (c1, c2, incr d c3)
        else Inl KeyError)"

text \<open>
  \<^verbatim>\<open>prefix = trap.split(':')[0] if ':' in str(trap) else str(trap)[:2]\<close>: only a string has
  \<^verbatim>\<open>split\<close>.
\<close>

definition trap_prefix_of :: "(pyval \<Rightarrow> string) \<Rightarrow> pyval \<Rightarrow> py_error + string" where
  "trap_prefix_of str_of trap =
     (if CHR '':'' \<in> set (py_str str_of trap)
      then (case trap of
              PStr s \<Rightarrow> Inr (takeWhile (\<lambda>c. c \<noteq> CHR '':'') s)
            | _ \<Rightarrow> Inl AttributeError)
      else Inr (take 2 (py_str str_of trap)))"

text \<open>
  \<^verbatim>\<open>
  if score == 10.0:    '10.0'
  elif score >= 9.0:   '9.0-9.9'
  elif score >= 8.0:   '8.0-8.9'
  elif score >= 6.0:   '6.0-7.9'
  else:                '<6.0'
  \<close>
\<close>

definition score_range :: "pyval \<Rightarrow> py_error + string" where
  "score_range score =
     (if py_eq score (PFloat 10) then Inr ''10.0''
      else and_then (py_ge score 9) (\<lambda>b9.
        if b9 then Inr ''9.0-9.9''
        else and_then (py_ge score 8) (\<lambda>b8.
          if b8 then Inr ''8.0-8.9''
          else and_then (py_ge score 6) (\<lambda>b6.
            if b6 then Inr ''6.0-7.9'' else Inr ''<6.0''))))"

text \<open>The steps of the loop body, in the order of the source.\<close>

definition count_pearl :: "pyval \<Rightarrow> stats \<Rightarrow> py_error + stats" where
  "count_pearl pearl st =
     (if hashable pearl then Inr (st\<lparr>pearl_level := incr pearl (pearl_level st)\<rparr>)
      else Inl TypeError)"

definition count_difficulty :: "pyval \<Rightarrow> pyval \<Rightarrow> stats \<Rightarrow> py_error + stats" where
  "count_difficulty pearl diff st =
     (let d = diff_normalized diff;
          st1 = st\<lparr>difficulty := incr d (difficulty st)\<rparr>
      in and_then (by_level_incr pearl d (difficulty_by_level st1))
           (\<lambda>bl. Inr (st1\<lparr>difficulty_by_level := bl\<rparr>)))"

definition count_label :: "pyval \<Rightarrow> pyval \<Rightarrow> stats \<Rightarrow> py_error + stats" where
  "count_label pearl lab st =
     (if hashable lab then
        (let st1 = st\<lparr>label := incr lab (label st)\<rparr>
         in Inr (if py_eq pearl (PStr ''L1'') then st1\<lparr>l1_labels := incr lab (l1_labels st1)\<rparr>
                 else if py_eq pearl (PStr ''L2'') then st1\<lparr>l2_labels := incr lab (l2_labels st1)\<rparr>
                 else if py_eq pearl (PStr ''L3'') then st1\<lparr>l3_labels := incr lab (l3_labels st1)\<rparr>
                 else st1))
      else Inl TypeError)"

definition count_trap :: "(pyval \<Rightarrow> string) \<Rightarrow> pyval \<Rightarrow> stats \<Rightarrow> py_error + stats" where
  "count_trap str_of trap st =
     (if truthy trap then
        and_then (trap_prefix_of str_of trap)
          (\<lambda>p. Inr (st\<lparr>trap_prefix := incr (PStr p) (trap_prefix st)\<rparr>))
      else Inr st)"

definition count_score :: "pyval \<Rightarrow> stats \<Rightarrow> py_error + stats" where
  "count_score score st =
     (if score = PNone then Inr st
      else and_then (score_range score)
             (\<lambda>r. Inr (st\<lparr>score_ranges := incr (PStr r) (score_ranges st)\<rparr>)))"

definition add_case :: "(pyval \<Rightarrow> string) \<Rightarrow> stats \<Rightarrow> pycase \<Rightarrow> py_error + stats" where
  "add_case str_of st c =
     and_then (read_case c) (\<lambda>f.
     and_then (count_pearl (f_pearl f) st) (\<lambda>st1.
     and_then (count_difficulty (f_pearl f) (f_diff f) st1) (\<lambda>st2.
     and_then (count_label (f_pearl f) (f_label f) st2) (\<lambda>st3.
     and_then (count_trap str_of (f_trap f) st3) (\<lambda>st4.
     count_score (f_score f) st4)))))"

fun add_cases :: "(pyval \<Rightarrow> string) \<Rightarrow> stats \<Rightarrow> pycase list \<Rightarrow> py_error + stats" where
  "add_cases str_of st [] = Inr st"
| "add_cases str_of st (c # cs) = and_then (add_case str_of st c) (\<lambda>st'. add_cases str_of st' cs)"

text \<open>\<^verbatim>\<open>calculate_stats(cases, source_name)\<close>; the name is not used by the source.\<close>

definition calculate_stats :: "(pyval \<Rightarrow> string) \<Rightarrow> pycase list \<Rightarrow> py_error + stats" where
  "calculate_stats str_of cases = add_cases str_of (empty_stats (length cases)) cases"

subsection \<open>print\_stats\<close>

text \<open>
  Every percentage of \<^verbatim>\<open>print_stats\<close> is the expression
  \<^verbatim>\<open>count / total * 100 if total > 0 else 0\<close>
  (the division of two ints is the true division, read here over the rationals).
\<close>

type_synonym line = "nat \<times> rat"

definition pct :: "nat \<Rightarrow> nat \<Rightarrow> rat" where
  "pct cnt tot = (if 0 < tot then of_nat cnt / of_nat tot * 100 else 0)"

definition levels :: "pyval list" where
  "levels = [PStr ''L1'', PStr ''L2'', PStr ''L3'']"

definition diffs :: "pyval list" where
  "diffs = [PStr ''Easy'', PStr ''Medium'', PStr ''Hard'']"

definition range_names :: "pyval list" where
  "range_names = [PStr ''10.0'', PStr ''9.0-9.9'', PStr ''8.0-8.9'', PStr ''6.0-7.9'', PStr ''<6.0'']"

definition rows_pct :: "pyval list \<Rightarrow> counter \<Rightarrow> nat \<Rightarrow> line list" where
  "rows_pct ks m tot = map (\<lambda>k. (count_of k m, pct (count_of k m) tot)) ks"

record printed =
  p_total :: nat
  p_pearl :: "line list"
  p_difficulty :: "line list"
  p_by_level :: "line list list"
  p_l1 :: "nat list"
  p_l2 :: "nat list"
  p_l3 :: "nat list"
  p_scores :: "line list"

text \<open>
  What \<^verbatim>\<open>print_stats(stats, name)\<close> prints, as numbers, and \<^verbatim>\<open>stats\<close> after the call:
  each read \<^verbatim>\<open>stats[...][key]\<close> of a counter inserts the key when it is missing. The L2
  table prints a label only when its count is positive; the score table is printed only when
  \<^verbatim>\<open>stats['score_ranges']\<close> is not empty.
\<close>

definition print_stats :: "stats \<Rightarrow> printed \<times> stats" where
  "print_stats st =
     (case difficulty_by_level st of (c1, c2, c3) \<Rightarrow>
      (\<lparr>p_total = total_cases st,
        p_pearl = rows_pct levels (pearl_level st) (total_cases st),
        p_difficulty = rows_pct diffs (difficulty st) (total_cases st),
        p_by_level =
          [rows_pct diffs c1 (count_of (PStr ''L1'') (pearl_level st)),
           rows_pct diffs c2 (count_of (PStr ''L2'') (pearl_level st)),
           rows_pct diffs c3 (count_of (PStr ''L3'') (pearl_level st))],
        p_l1 = map (\<lambda>k. count_of k (l1_labels st)) [PStr ''YES'', PStr ''NO'', PStr ''AMBIGUOUS''],
        p_l2 = filter (\<lambda>n. 0 < n) (map (\<lambda>k. count_of k (l2_labels st)) [PStr ''NO'', PStr ''YES'']),
        p_l3 = map (\<lambda>k. count_of k (l3_labels st)) [PStr ''VALID'', PStr ''INVALID'', PStr ''CONDITIONAL''],
        p_scores = (if score_ranges st \<noteq> [] then rows_pct range_names (score_ranges st) (total_cases st)
                    else [])\<rparr>,
       st\<lparr>pearl_level := touch_all levels (pearl_level st),
          difficulty := touch_all diffs (difficulty st),
          difficulty_by_level := (touch_all diffs c1, touch_all diffs c2, touch_all diffs c3),
          l1_labels := touch_all [PStr ''YES'', PStr ''NO'', PStr ''AMBIGUOUS''] (l1_labels st),
          l2_labels := touch_all [PStr ''NO'', PStr ''YES''] (l2_labels st),
          l3_labels := touch_all [PStr ''VALID'', PStr ''INVALID'', PStr ''CONDITIONAL''] (l3_labels st),
          score_ranges := (if score_ranges st \<noteq> [] then touch_all range_names (score_ranges st)
                           else score_ranges st)\<rparr>))"

subsection \<open>generate\_latex\_tables\<close>

text \<open>
  Here the percentages are the bare expression \<^verbatim>\<open>u / unval_stats['total'] * 100\<close>: the
  true division raises \<^verbatim>\<open>ZeroDivisionError\<close> on a zero total.
\<close>

definition py_pct :: "nat \<Rightarrow> nat \<Rightarrow> py_error + rat" where
  "py_pct cnt tot = (if tot = 0 then Inl ZeroDivisionError else Inr (of_nat cnt / of_nat tot * 100))"

fun collect :: "('a \<Rightarrow> py_error + 'b) \<Rightarrow> 'a list \<Rightarrow> py_error + 'b list" where
  "collect f [] = Inr []"
| "collect f (x # xs) = and_then (f x) (\<lambda>y. and_then (collect f xs) (\<lambda>ys. Inr (y # ys)))"

text \<open>
  \<^verbatim>\<open>
  for level in ['L1', 'L2', 'L3']:
      u = unval_stats['pearl_level'][level]
      u_pct = u / unval_stats['total'] * 100
      v = val_stats['pearl_level'][level]
      v_pct = v / val_stats['total'] * 100
      f = final_stats['pearl_level'][level]
      f_pct = f / final_stats['total'] * 100
  \<close>
\<close>

definition latex_pearl_row ::
  "stats \<Rightarrow> stats \<Rightarrow> stats \<Rightarrow> pyval \<Rightarrow> py_error + (line \<times> line \<times> line)" where
  "latex_pearl_row unval val final level =
     (let u = count_of level (pearl_level unval) in
      and_then (py_pct u (total_cases unval)) (\<lambda>u_pct.
      let v = count_of level (pearl_level val) in
      and_then (py_pct v (total_cases val)) (\<lambda>v_pct.
      let f = count_of level (pearl_level final) in
      and_then (py_pct f (total_cases final)) (\<lambda>f_pct.
      Inr ((u, u_pct), (v, v_pct), (f, f_pct))))))"

text \<open>
  \<^verbatim>\<open>
  for diff in ['Easy', 'Medium', 'Hard']:
      u = unval_stats['difficulty'][diff]
      u_pct = u / unval_stats['total'] * 100
      v = val_stats['difficulty'][diff]
      v_pct = v / val_stats['total'] * 100
      f = final_stats['difficulty'][diff]
      target = 25 if diff != 'Medium' else 50
  \<close>
\<close>

definition latex_diff_row ::
  "stats \<Rightarrow> stats \<Rightarrow> stats \<Rightarrow> pyval \<Rightarrow> py_error + (line \<times> line \<times> nat \<times> nat)" where
  "latex_diff_row unval val final diff =
     (let u = count_of diff (difficulty unval) in
      and_then (py_pct u (total_cases unval)) (\<lambda>u_pct.
      let v = count_of diff (difficulty val) in
      and_then (py_pct v (total_cases val)) (\<lambda>v_pct.
      let f = count_of diff (difficulty final);
          target = (if diff \<noteq> PStr ''Medium'' then 25 else 50) in
      Inr ((u, u_pct), (v, v_pct), f, target))))"

definition touched_tables :: "stats \<Rightarrow> stats" where
  "touched_tables st =
     st\<lparr>pearl_level := touch_all levels (pearl_level st),
        difficulty := touch_all diffs (difficulty st)\<rparr>"

record latex =
  table_pearl :: "(line \<times> line \<times> line) list"
  table_difficulty :: "(line \<times> line \<times> nat \<times> nat) list"

definition generate_latex_tables ::
  "stats \<Rightarrow> stats \<Rightarrow> stats \<Rightarrow> py_error + (latex \<times> stats \<times> stats \<times> stats)" where
  "generate_latex_tables unval val final =
     and_then (collect (latex_pearl_row unval val final) levels) (\<lambda>t2.
     and_then (collect (latex_diff_row unval val final) diffs) (\<lambda>t3.
     Inr (\<lparr>table_pearl = t2, table_difficulty = t3\<rparr>,
          touched_tables unval, touched_tables val, touched_tables final)))"

subsection \<open>main\<close>

text \<open>
  \<^verbatim>\<open>validated_cases = [c for c in db_cases if c['finalScore'] is not None and c['finalScore'] >= 8]\<close>
\<close>

fun validated_cases :: "row list \<Rightarrow> py_error + row list" where
  "validated_cases [] = Inr []"
| "validated_cases (c # cs) =
     and_then (if col_finalScore c = PNone then Inr False else py_ge (col_finalScore c) 8) (\<lambda>keep.
     and_then (validated_cases cs) (\<lambda>rest. Inr (if keep then c # rest else rest)))"

text \<open>
  \<^verbatim>\<open>
  if unval_stats['total'] == sum(unval_stats['pearl_level'].values()) == sum(unval_stats['difficulty'].values()):
      print("All totals are consistent!")
  else:
      print("Totals are inconsistent!")
  \<close>
\<close>

definition verification :: "stats \<Rightarrow> bool" where
  "verification st =
     (total_cases st = sum_values (pearl_level st)
      \<and> sum_values (pearl_level st) = sum_values (difficulty st))"

record report =
  out_unval :: printed
  out_val :: printed
  out_final :: printed
  out_latex :: latex
  out_consistent :: bool

text \<open>
  \<^verbatim>\<open>main\<close>, on the rows returned by \<^verbatim>\<open>get_db_stats()\<close> and the \<^verbatim>\<open>cases\<close> array
  returned by \<^verbatim>\<open>get_export_stats()\<close>.
\<close>

definition main :: "(pyval \<Rightarrow> string) \<Rightarrow> row list \<Rightarrow> pyval list \<Rightarrow> py_error + report" where
  "main str_of db_cases export_cases =
     and_then (calculate_stats str_of (map Row db_cases)) (\<lambda>unval_stats.
     and_then (validated_cases db_cases) (\<lambda>vcs.
     and_then (calculate_stats str_of (map Row vcs)) (\<lambda>val_stats.
     and_then (calculate_stats str_of (map Obj export_cases)) (\<lambda>final_stats.
     case print_stats unval_stats of (o1, unval1) \<Rightarrow>
     case print_stats val_stats of (o2, val1) \<Rightarrow>
     case print_stats final_stats of (o3, final1) \<Rightarrow>
     and_then (generate_latex_tables unval1 val1 final1) (\<lambda>(tables, unval2, val2, final2).
     Inr \<lparr>out_unval = o1, out_val = o2, out_final = o3, out_latex = tables,
          out_consistent = verification unval2\<rparr>)))))"

section \<open>The loader of the dataset analysis\<close>

text \<open>
  A data directory is the list of its files, in the order in which the file system lists them.
  A file is its name and its content as \<^verbatim>\<open>json.load\<close> reads it (\<open>None\<close> when the text is
  not JSON, where \<^verbatim>\<open>json.load\<close> raises).
\<close>

type_synonym json_file = "string \<times> pyval option"

type_synonym buckets = "(pyval \<times> pyval list) list"

definition json_load :: "pyval option \<Rightarrow> py_error + pyval" where
  "json_load content = (case content of None \<Rightarrow> Inl JSONDecodeError | Some data \<Rightarrow> Inr data)"

definition author_map :: "(string \<times> string) list" where
  "author_map =
     [(''deveen'', ''Deveen''), (''theodore-wu'', ''Theodore''), (''tony'', ''Tony''), (''juli'', ''Juli'')]"

definition email_to_name :: "(string \<times> string) list" where
  "email_to_name =
     [(''deveen@stanford.edu'', ''Deveen''), (''wutheodo@stanford.edu'', ''Theodore''),
      (''lgren007@stanford.edu'', ''Tony''), (''julih@stanford.edu'', ''Juli'')]"

text \<open>
  \<^verbatim>\<open>by_author[k].extend(qs)\<close> on the \<^verbatim>\<open>defaultdict(list)\<close>: the bucket of the key equal to
  \<open>k\<close> grows, or a new bucket is appended.
\<close>

fun extend_bucket :: "pyval \<Rightarrow> pyval list \<Rightarrow> buckets \<Rightarrow> buckets" where
  "extend_bucket k qs [] = [(k, qs)]"
| "extend_bucket k qs ((k', v) # m) =
     (if py_eq k' k then (k', v @ qs) # m else (k', v) # extend_bucket k qs m)"

text \<open>
  The elements that \<^verbatim>\<open>list.extend\<close> and \<^verbatim>\<open>for q in questions\<close> draw from a value: the
  items of a list, the characters of a string, the keys of a dictionary; anything else is not
  iterable.
\<close>

fun py_iter :: "pyval \<Rightarrow> py_error + pyval list" where
  "py_iter (PList xs) = Inr xs"
| "py_iter (PStr s) = Inr (map (\<lambda>c. PStr [c]) s)"
| "py_iter (PDict kv) = Inr (map (\<lambda>b. PStr (fst b)) kv)"
| "py_iter v = Inl TypeError"

text \<open>
  \<^verbatim>\<open>questions = data if isinstance(data, list) else data.get("questions", [])\<close>
\<close>

fun file_questions :: "pyval \<Rightarrow> py_error + pyval" where
  "file_questions (PList xs) = Inr (PList xs)"
| "file_questions (PDict kv) = Inr (dict_get kv ''questions'' (PList []))"
| "file_questions v = Inl AttributeError"

text \<open>
  \<^verbatim>\<open>
  matched = False
  for name_key, name_val in author_map.items():
      if name_key in f.name.lower():
          by_author[name_val].extend(questions)
          matched = True
          break
  if not matched:
      by_author[f.name].extend(questions)
  \<close>
\<close>

definition author_key :: "string \<Rightarrow> pyval" where
  "author_key name =
     (case find (\<lambda>e. contains (fst e) (lower name)) author_map of
        Some e \<Rightarrow> PStr (snd e)
      | None \<Rightarrow> PStr name)"

definition is_combined :: "json_file \<Rightarrow> bool" where
  "is_combined f = contains ''combined'' (lower (fst f))"

definition load_file :: "json_file \<Rightarrow> pyval list \<times> buckets \<Rightarrow> py_error + pyval list \<times> buckets" where
  "load_file f acc =
     (if is_combined f then Inr acc
      else
        and_then (json_load (snd f)) (\<lambda>data.
        and_then (file_questions data) (\<lambda>questions.
        and_then (py_iter questions) (\<lambda>qs.
        Inr (fst acc @ qs, extend_bucket (author_key (fst f)) qs (snd acc))))))"

fun primary_pass :: "json_file list \<Rightarrow> pyval list \<times> buckets \<Rightarrow> py_error + pyval list \<times> buckets" where
  "primary_pass [] acc = Inr acc"
| "primary_pass (f # fs) acc = and_then (load_file f acc) (primary_pass fs)"

text \<open>
  \<^verbatim>\<open>
  for q in questions:
      author_email = q.get("author", "Unknown")
      author_name = email_to_name.get(author_email, author_email)
      by_author[author_name].append(q)
  \<close>
  Only a \<^verbatim>\<open>dict\<close> has \<^verbatim>\<open>get\<close>; a list or a dictionary cannot be looked up in
  \<^verbatim>\<open>email_to_name\<close>.
\<close>

definition author_name_of :: "pyval \<Rightarrow> pyval" where
  "author_name_of author_email =
     (case find (\<lambda>e. py_eq (PStr (fst e)) author_email) email_to_name of
        Some e \<Rightarrow> PStr (snd e)
      | None \<Rightarrow> author_email)"

fun group_by_author :: "pyval list \<Rightarrow> buckets \<Rightarrow> py_error + buckets" where
  "group_by_author [] ba = Inr ba"
| "group_by_author (PDict kv # qs) ba =
     (let author_email = dict_get kv ''author'' (PStr ''Unknown'') in
      if hashable author_email
      then group_by_author qs (extend_bucket (author_name_of author_email) [PDict kv] ba)
      else Inl TypeError)"
| "group_by_author (q # qs) ba = Inl AttributeError"

text \<open>
  The two patterns: \<^verbatim>\<open>glob("*.json")\<close> and \<^verbatim>\<open>glob("combined*.json")\<close>.
\<close>

definition glob_json :: "json_file list \<Rightarrow> json_file list" where
  "glob_json dir = filter (\<lambda>f. ends_with ''.json'' (fst f)) dir"

definition glob_combined :: "json_file list \<Rightarrow> json_file list" where
  "glob_combined dir =
     filter (\<lambda>f. starts_with ''combined'' (fst f) \<and> ends_with ''.json'' (fst f)
                 \<and> 13 \<le> length (fst f)) dir"

text \<open>
  \<^verbatim>\<open>
  if not all_questions:
      combined_files = list(data_dir.glob("combined*.json"))
      if combined_files:
          with open(combined_files[0]) as file:
              data = json.load(file)
          questions = data.get("questions", [])
          all_questions.extend(questions)
          for q in questions: ...
  \<close>
\<close>

definition fallback_pass :: "json_file list \<Rightarrow> pyval list \<times> buckets \<Rightarrow> py_error + pyval list \<times> buckets" where
  "fallback_pass dir acc =
     (if fst acc = [] then
        (case glob_combined dir of
           [] \<Rightarrow> Inr acc
         | f # fs \<Rightarrow>
             and_then (json_load (snd f)) (\<lambda>data.
             and_then (case data of PDict kv \<Rightarrow> Inr (dict_get kv ''questions'' (PList []))
                                  | _ \<Rightarrow> Inl AttributeError) (\<lambda>questions.
             and_then (py_iter questions) (\<lambda>qs.
             and_then (group_by_author qs (snd acc)) (\<lambda>ba.
             Inr (fst acc @ qs, ba))))))
      else Inr acc)"

text \<open>\<^verbatim>\<open>_load_questions(data_dir)\<close>: the files are visited in the sorted order of their names.\<close>

definition load_questions :: "json_file list \<Rightarrow> py_error + pyval list \<times> buckets" where
  "load_questions dir =
     and_then (primary_pass (sort_key fst (glob_json dir)) ([], [])) (fallback_pass dir)"

subsection \<open>Trap types in the dataset analysis\<close>

text \<open>
  \<^verbatim>\<open>
  no_cases = [q for q in all_questions if q.get("groundTruth") == "NO"]
  trap_counts = Counter(_get(q, "annotations", "trapType", default="UNKNOWN") for q in no_cases)
  \<close>
\<close>

fun no_cases :: "pyval list \<Rightarrow> py_error + pyval list" where
  "no_cases [] = Inr []"
| "no_cases (PDict kv # qs) =
     and_then (no_cases qs) (\<lambda>rest.
       Inr (if py_eq (dict_get kv ''groundTruth'' PNone) (PStr ''NO'') then PDict kv # rest else rest))"
| "no_cases (q # qs) = Inl AttributeError"

fun count_all :: "pyval list \<Rightarrow> counter \<Rightarrow> py_error + counter" where
  "count_all [] m = Inr m"
| "count_all (k # ks) m = (if hashable k then count_all ks (incr k m) else Inl TypeError)"

definition trap_counts :: "pyval list \<Rightarrow> py_error + counter" where
  "trap_counts all_questions =
     and_then (no_cases all_questions) (\<lambda>ncs.
       count_all (map (\<lambda>q. get q [''annotations'', ''trapType''] (PStr ''UNKNOWN'')) ncs) [])"

section \<open>Quantities of the statements\<close>

text \<open>The sums that the verification of \<^verbatim>\<open>main\<close> compares, with the sum of the trap counts.\<close>

definition tallies :: "stats \<Rightarrow> nat \<times> nat \<times> nat \<times> nat" where
  "tallies st = (sum_values (pearl_level st), sum_values (difficulty st),
                 sum_values (trap_prefix st), total_cases st)"

text \<open>A case that \<^verbatim>\<open>calculate_stats\<close> reads with a trap value that is true (\<^verbatim>\<open>if trap:\<close>).\<close>

definition has_trap :: "pycase \<Rightarrow> bool" where
  "has_trap c = (case read_case c of Inl e \<Rightarrow> False | Inr f \<Rightarrow> truthy (f_trap f))"

text \<open>All the records of the author buckets.\<close>

definition bucket_records :: "buckets \<Rightarrow> pyval list" where
  "bucket_records ba = concat (map snd ba)"


subsection \<open>Example inputs\<close>

definition example_rows :: "row list" where
  "example_rows =
     [\<lparr>col_pearlLevel = PStr ''L1'', col_groundTruth = PStr ''YES'', col_difficulty = PStr ''Easy'',
       col_trapType = PNone, col_finalScore = PFloat 10\<rparr>,
      \<lparr>col_pearlLevel = PStr ''L2'', col_groundTruth = PStr ''NO'', col_difficulty = PStr ''hard'',
       col_trapType = PStr ''T3:REVERSE'', col_finalScore = PFloat 8\<rparr>]"


definition example_stats :: stats where
  "example_stats =
     \<lparr>total_cases = 2, pearl_level = [(PStr ''L1'', 1), (PStr ''L2'', 1)],
      difficulty = [(PStr ''Easy'', 1), (PStr ''Unknown'', 1)],
      label = [(PStr ''YES'', 1), (PStr ''NO'', 1)],
      trap_prefix = [(PStr ''T3'', 1)], l1_labels = [(PStr ''YES'', 1)],
      l2_labels = [(PStr ''NO'', 1)], l3_labels = [],
      score_ranges = [(PStr ''10.0'', 1), (PStr ''8.0-8.9'', 1)],
      difficulty_by_level = ([(PStr ''Easy'', 1)], [(PStr ''Unknown'', 1)], [])\<rparr>"


definition record_no_a :: pyval where
  "record_no_a =
     PDict [(''groundTruth'', PStr ''NO''), (''annotations'', PDict [(''trapType'', PStr ''A'')])]"

definition record_yes :: "(string \<times> pyval) list" where
  "record_yes =
     [(''groundTruth'', PStr ''YES''), (''annotations'', PDict [(''trapType'', PStr ''B'')])]"

definition example_dir :: "json_file list" where
  "example_dir =
     [(''tony_export.json'', Some (PDict [(''questions'', PList [record_no_a])])),
      (''combined.json'',
       Some (PDict [(''questions'', PList [PDict record_yes, record_no_a])])),
      (''deveen.json'', Some (PList [PDict record_yes]))]"

definition combined_only :: "json_file list" where
  "combined_only =
     [(''combined.json'',
       Some (PDict [(''questions'',
          PList [PDict [(''author'', PStr ''julih@stanford.edu'')],
                 PDict [(''author'', PStr ''someone@example.org'')],
                 PDict []])]))]"


section \<open>Lemmas on the model\<close>

lemma sum_values_incr: "sum_values (incr k m) = Suc (sum_values m)"
  by (induction m) (auto simp: sum_values_def)



lemma and_then_Inr: "and_then r f = Inr y \<longleftrightarrow> (\<exists>x. r = Inr x \<and> f x = Inr y)"
  by (cases r) (auto simp: and_then_def)


subsection \<open>What one pass of calculate\_stats adds to the sums\<close>

lemma count_pearl_tallies:
  "count_pearl p st = Inr st' \<Longrightarrow>
   tallies st' = (Suc (sum_values (pearl_level st)), sum_values (difficulty st),
                  sum_values (trap_prefix st), total_cases st)"
  by (auto simp: count_pearl_def tallies_def sum_values_incr split: if_splits)

lemma count_difficulty_tallies:
  "count_difficulty p d st = Inr st' \<Longrightarrow>
   tallies st' = (sum_values (pearl_level st), Suc (sum_values (difficulty st)),
                  sum_values (trap_prefix st), total_cases st)"
  by (auto simp: count_difficulty_def tallies_def sum_values_incr and_then_Inr Let_def)

lemma count_label_tallies: "count_label p l st = Inr st' \<Longrightarrow> tallies st' = tallies st"
  by (auto simp: count_label_def tallies_def Let_def split: if_splits)

lemma count_trap_tallies:
  "count_trap str_of t st = Inr st' \<Longrightarrow>
   tallies st' = (sum_values (pearl_level st), sum_values (difficulty st),
                  sum_values (trap_prefix st) + (if truthy t then 1 else 0), total_cases st)"
  by (auto simp: count_trap_def tallies_def sum_values_incr and_then_Inr split: if_splits)

lemma count_score_tallies: "count_score s st = Inr st' \<Longrightarrow> tallies st' = tallies st"
  by (auto simp: count_score_def tallies_def and_then_Inr split: if_splits)

lemma add_case_tallies:
  assumes "add_case str_of st c = Inr st'"
  shows "tallies st' = (Suc (sum_values (pearl_level st)), Suc (sum_values (difficulty st)),
                  sum_values (trap_prefix st) + (if has_trap c then 1 else 0), total_cases st)"
proof -
  from assms obtain f st1 st2 st3 st4 where
    f: "read_case c = Inr f"
    and 1: "count_pearl (f_pearl f) st = Inr st1"
    and 2: "count_difficulty (f_pearl f) (f_diff f) st1 = Inr st2"
    and 3: "count_label (f_pearl f) (f_label f) st2 = Inr st3"
    and 4: "count_trap str_of (f_trap f) st3 = Inr st4"
    and 5: "count_score (f_score f) st4 = Inr st'"
    unfolding add_case_def and_then_Inr by blast
  have ht: "has_trap c = truthy (f_trap f)" by (simp add: has_trap_def f)
  from count_pearl_tallies[OF 1] count_difficulty_tallies[OF 2] count_label_tallies[OF 3]
       count_trap_tallies[OF 4] count_score_tallies[OF 5] ht
  show ?thesis by (simp add: tallies_def)
qed

lemma add_cases_tallies:
  "add_cases str_of st cs = Inr st' \<Longrightarrow>
   tallies st' = (sum_values (pearl_level st) + length cs, sum_values (difficulty st) + length cs,
                  sum_values (trap_prefix st) + length (filter has_trap cs), total_cases st)"
proof (induction cs arbitrary: st)
  case Nil
  then show ?case by (simp add: tallies_def)
next
  case (Cons c cs)
  from Cons.prems obtain st1 where a: "add_case str_of st c = Inr st1"
    and b: "add_cases str_of st1 cs = Inr st'"
    by (auto simp: and_then_Inr)
  from Cons.IH[OF b] add_case_tallies[OF a] show ?case
    by (simp add: tallies_def)
qed

lemma calculate_stats_tallies:
  "calculate_stats str_of cases = Inr st \<Longrightarrow>
   tallies st = (length cases, length cases, length (filter has_trap cases), length cases)"
  unfolding calculate_stats_def
  by (drule add_cases_tallies) (simp add: empty_stats_def sum_values_def)

lemma example_rows_stats: "calculate_stats str_plain (map Row example_rows) = Inr example_stats"
  by code_simp

subsection \<open>The verification of main\<close>




subsection \<open>The author buckets\<close>

lemma mset_extend_bucket:
  "mset (bucket_records (extend_bucket k qs m)) = mset (bucket_records m) + mset qs"
  by (induction m) (auto simp: bucket_records_def)

lemma load_file_partition:
  assumes "load_file f acc = Inr acc'" "mset (bucket_records (snd acc)) = mset (fst acc)"
  shows "mset (bucket_records (snd acc')) = mset (fst acc')"
  using assms
  by (auto simp: load_file_def and_then_Inr mset_extend_bucket split: if_splits)

lemma primary_pass_partition:
  "primary_pass fs acc = Inr acc' \<Longrightarrow> mset (bucket_records (snd acc)) = mset (fst acc)
   \<Longrightarrow> mset (bucket_records (snd acc')) = mset (fst acc')"
proof (induction fs arbitrary: acc)
  case Nil
  then show ?case by simp
next
  case (Cons f fs)
  from Cons.prems(1) obtain acc1 where a: "load_file f acc = Inr acc1"
    and b: "primary_pass fs acc1 = Inr acc'"
    by (auto simp: and_then_Inr)
  from Cons.IH[OF b load_file_partition[OF a Cons.prems(2)]] show ?case .
qed

lemma group_by_author_partition:
  "group_by_author qs ba = Inr ba' \<Longrightarrow>
   mset (bucket_records ba') = mset (bucket_records ba) + mset qs"
proof (induction qs ba rule: group_by_author.induct)
  case (1 ba)
  then show ?case by simp
next
  case (2 kv qs ba)
  then show ?case
    by (auto simp: Let_def mset_extend_bucket split: if_splits)
qed simp_all

lemma fallback_pass_partition:
  assumes "fallback_pass dir acc = Inr acc'" "mset (bucket_records (snd acc)) = mset (fst acc)"
  shows "mset (bucket_records (snd acc')) = mset (fst acc')"
  using assms
  by (auto simp: fallback_pass_def and_then_Inr split: if_splits list.splits
           dest!: group_by_author_partition)

lemma load_questions_partition:
  assumes "load_questions dir = Inr (all_questions, by_author)"
  shows "mset (bucket_records by_author) = mset all_questions"
proof -
  from assms obtain acc where p: "primary_pass (sort_key fst (glob_json dir)) ([], []) = Inr acc"
    and f: "fallback_pass dir acc = Inr (all_questions, by_author)"
    by (auto simp: load_questions_def and_then_Inr)
  have "mset (bucket_records (snd acc)) = mset (fst acc)"
    using primary_pass_partition[OF p] by (simp add: bucket_records_def)
  from fallback_pass_partition[OF f this] show ?thesis by simp
qed

subsection \<open>Combined files\<close>










subsection \<open>Normalization\<close>

lemma no_cases_skip:
  assumes "\<not> py_eq (dict_get kv ''groundTruth'' PNone) (PStr ''NO'')"
  shows "no_cases (xs @ PDict kv # ys) = no_cases (xs @ ys)"
proof (induction xs rule: no_cases.induct)
  case 1
  from assms show ?case by (cases "no_cases ys") (simp_all add: and_then_def)
qed simp_all

lemma norm_difficulty_values:
  "norm_difficulty str_of x \<in> {''EASY'', ''MEDIUM'', ''HARD'', ''UNKNOWN''}"
  by (simp add: norm_difficulty_def Let_def)

lemma norm_difficulty_fixed:
  "norm_difficulty str_of (PStr ''EASY'') = ''EASY''"
  "norm_difficulty str_of (PStr ''MEDIUM'') = ''MEDIUM''"
  "norm_difficulty str_of (PStr ''HARD'') = ''HARD''"
  "norm_difficulty str_of (PStr ''UNKNOWN'') = ''UNKNOWN''"
  by code_simp+

lemma norm_difficulty_idem:
  "norm_difficulty str_of (PStr (norm_difficulty str_of x)) = norm_difficulty str_of x"
  using norm_difficulty_values[of str_of x] norm_difficulty_fixed[of str_of] by auto

lemma isspace_lower_char: "py_isspace (lower_char c) = py_isspace c"
  by (auto simp: py_isspace_def lower_char_def Let_def)

lemma strip_lower: "strip (lower s) = lower (strip s)"
  by (simp add: strip_def lower_def dropWhile_map rev_map comp_def isspace_lower_char)

lemma norm_difficulty_case_insensitive:
  assumes "lower s = lower t"
  shows "norm_difficulty str_of (PStr s) = norm_difficulty str_of (PStr t)"
proof -
  have "lower (strip s) = lower (strip t)"
    using assms by (simp add: strip_lower[symmetric])
  then show ?thesis by (simp add: norm_difficulty_def norm_str_def py_str_def)
qed

lemma py_eq_PStr: "py_eq d (PStr s) \<longleftrightarrow> d = PStr s"
  by (cases d) (auto simp: py_eq_def)

lemma diff_normalized_eq:
  "diff_normalized d = (if d \<in> {PStr ''Easy'', PStr ''Medium'', PStr ''Hard''} then d else PStr ''Unknown'')"
  by (auto simp: diff_normalized_def py_eq_PStr)

lemma diff_normalized_idem: "diff_normalized (diff_normalized d) = diff_normalized d"
  by (simp add: diff_normalized_eq)

subsection \<open>Where the report statistics raise, and the score ranges\<close>

lemma latex_zero_total_raises:
  assumes "total_cases unval = 0 \<or> total_cases val = 0 \<or> total_cases final = 0"
  shows "generate_latex_tables unval val final = Inl ZeroDivisionError"
  using assms
  by (auto simp: generate_latex_tables_def levels_def latex_pearl_row_def py_pct_def and_then_def Let_def)

lemma py_eq_PStr_left: "py_eq (PStr s) d \<longleftrightarrow> d = PStr s"
  by (cases d) (auto simp: py_eq_def)

lemma unknown_pearl_raises:
  assumes "read_case c = Inr f" "hashable (f_pearl f)"
    and "f_pearl f \<noteq> PStr ''L1''" "f_pearl f \<noteq> PStr ''L2''" "f_pearl f \<noteq> PStr ''L3''"
  shows "add_case str_of st c = Inl KeyError"
proof -
  have cp: "count_pearl (f_pearl f) st = Inr (st\<lparr>pearl_level := incr (f_pearl f) (pearl_level st)\<rparr>)"
    by (simp add: count_pearl_def assms(2))
  have bl: "by_level_incr (f_pearl f) d b = Inl KeyError" for d b
    by (cases b) (simp add: by_level_incr_def py_eq_PStr_left assms(3,4,5))
  have cd: "count_difficulty (f_pearl f) (f_diff f) st1 = Inl KeyError" for st1
    by (simp add: count_difficulty_def Let_def bl and_then_def)
  show ?thesis
    by (simp add: add_case_def assms(1) cp cd and_then_def)
qed

lemma score_range_numbers:
  assumes "num_of score = Some x"
  shows "score_range score =
     Inr (if x = 10 then ''10.0'' else if 9 \<le> x then ''9.0-9.9'' else if 8 \<le> x then ''8.0-8.9''
          else if 6 \<le> x then ''6.0-7.9'' else ''<6.0'')"
proof -
  have e: "py_eq score (PFloat 10) = (x = 10)" by (simp add: py_eq_def assms)
  have g: "py_ge score c = Inr (c \<le> x)" for c by (simp add: py_ge_def assms)
  show ?thesis
    unfolding score_range_def e g and_then_def sum.case
    by (simp only: if_distrib[of Inr] split: if_splits)
qed

section \<open>The claims\<close>

text \<open>
  Claim C1. Every percentage is \<open>count / total * 100\<close> on a non-zero total and 0 on a zero
  total, and deriving it never raises. \<^verbatim>\<open>print_stats\<close> guards each division, and
  \<^verbatim>\<open>generate_latex_tables\<close> guards none: with one row in the store and no row of score 8 or
  more, the validated total is 0 and \<^verbatim>\<open>main\<close> ends in \<^verbatim>\<open>ZeroDivisionError\<close> at
  \<^verbatim>\<open>v_pct = v / val_stats['total'] * 100\<close>.
\<close>

theorem C1_latex_percentage_raises:
  "main str_of
     [\<lparr>col_pearlLevel = PStr ''L1'', col_groundTruth = PStr ''YES'',
       col_difficulty = PStr ''Easy'', col_trapType = PNone, col_finalScore = PNone\<rparr>]
     [PDict [(''pearlLevel'', PStr ''L1'')]]
   = Inl ZeroDivisionError"
  by code_simp

text \<open>
  Claim C2, as the code has it. In the dataset analysis the trap types are counted over the
  records with \<^verbatim>\<open>groundTruth == "NO"\<close> only: a record with any other ground truth, put
  anywhere in the record set, leaves \<^verbatim>\<open>trap_counts\<close> as it is. In the report statistics
  \<^verbatim>\<open>calculate_stats\<close> counts a trap prefix for every case whose trap value is true, whatever
  its ground truth: the trap-prefix counts sum to the number of those cases.
\<close>

theorem C2_trap_counts:
  "(\<not> py_eq (dict_get kv ''groundTruth'' PNone) (PStr ''NO'')
      \<longrightarrow> trap_counts (xs @ PDict kv # ys) = trap_counts (xs @ ys))
   \<and> (calculate_stats str_of cases = Inr st
      \<longrightarrow> sum_values (trap_prefix st) = length (filter has_trap cases))
   \<and> has_trap (Row r) = truthy (col_trapType r)
   \<and> has_trap (Obj (PDict kv)) = truthy (dict_trap kv)"
proof -
  have a: "\<not> py_eq (dict_get kv ''groundTruth'' PNone) (PStr ''NO'')
      \<longrightarrow> trap_counts (xs @ PDict kv # ys) = trap_counts (xs @ ys)"
    by (simp add: trap_counts_def no_cases_skip)
  have b: "calculate_stats str_of cases = Inr st
      \<longrightarrow> sum_values (trap_prefix st) = length (filter has_trap cases)"
    using calculate_stats_tallies[of str_of cases st] by (simp add: tallies_def)
  have c: "has_trap (Row r) = truthy (col_trapType r)"
    by (simp add: has_trap_def py_or_def)
  have d: "has_trap (Obj (PDict kv)) = truthy (dict_trap kv)"
    by (simp add: has_trap_def)
  from a b c d show ?thesis by blast
qed

text \<open>
  The example of the specification (NO with trap A, YES, NO with trap A) in the dataset
  analysis, and the two example rows in the report statistics.
\<close>

theorem C2_witness:
  "\<not> py_eq (dict_get record_yes ''groundTruth'' PNone) (PStr ''NO'')
   \<and> trap_counts [record_no_a, PDict record_yes, record_no_a] = Inr [(PStr ''A'', 2)]
   \<and> calculate_stats str_plain (map Row example_rows) = Inr example_stats
   \<and> sum_values (trap_prefix example_stats) = 1"
proof -
  have g: "\<not> py_eq (dict_get record_yes ''groundTruth'' PNone) (PStr ''NO'')" by code_simp
  have t: "trap_counts ([record_no_a] @ [record_no_a]) = Inr [(PStr ''A'', 2)]" by code_simp
  have f: "length (filter has_trap (map Row example_rows)) = 1" by code_simp
  note c = C2_trap_counts[of record_yes "[record_no_a]" "[record_no_a]" str_plain
      "map Row example_rows" example_stats]
  from c g t have 1: "trap_counts [record_no_a, PDict record_yes, record_no_a] = Inr [(PStr ''A'', 2)]"
    by simp
  from c example_rows_stats f have 2: "sum_values (trap_prefix example_stats) = 1"
    by simp
  from g 1 2 example_rows_stats show ?thesis by blast
qed

text \<open>
  Against C2 as stated: a row of the store with ground truth YES and a trap type is counted
  in \<^verbatim>\<open>stats['trap_prefix']\<close>.
\<close>

theorem C2_counterexample:
  "map_sum id trap_prefix
     (calculate_stats str_plain
        [Row \<lparr>col_pearlLevel = PStr ''L1'', col_groundTruth = PStr ''YES'',
              col_difficulty = PStr ''Easy'', col_trapType = PStr ''T1:CONFOUNDING'',
              col_finalScore = PNone\<rparr>])
   = Inr [(PStr ''T1'', 1)]"
  by code_simp

text \<open>
  Claim C3. A record with an absent or unexpected optional field never makes the statistics
  raise. \<^verbatim>\<open>calculate_stats\<close> counts the pearl level in a \<^verbatim>\<open>defaultdict\<close> and then indexes
  the plain dictionary \<^verbatim>\<open>difficulty_by_level\<close> with it: an exported case without a pearl level,
  and a row of the store whose \<^verbatim>\<open>pearlLevel\<close> is NULL, end in \<^verbatim>\<open>KeyError\<close>.
\<close>

theorem C3_missing_pearl_level_raises:
  "calculate_stats str_of [Obj (PDict [(''difficulty'', PStr ''Easy'')])] = Inl KeyError
   \<and> calculate_stats str_of
        [Row \<lparr>col_pearlLevel = PNone, col_groundTruth = PStr ''YES'',
              col_difficulty = PStr ''Easy'', col_trapType = PNone, col_finalScore = PFloat 9\<rparr>]
      = Inl KeyError"
  by code_simp

text \<open>
  Claim C4. Every record with a non-absent score falls into exactly one of the five buckets,
  for both source shapes. A row of the store with score 0 is counted in \<^verbatim>\<open>'<6.0'\<close>; an
  exported case with \<^verbatim>\<open>finalScore\<close> 0 is read through
  \<^verbatim>\<open>case.get('finalScore') or case.get('final_score')\<close>, which turns the 0 into \<^verbatim>\<open>None\<close>,
  and is counted in no bucket.
\<close>

theorem C4_zero_score_not_bucketed:
  "map_sum id score_ranges
     (calculate_stats str_of
        [Obj (PDict [(''pearlLevel'', PStr ''L1''), (''finalScore'', PFloat 0)])])
   = Inr []
   \<and> map_sum id score_ranges
       (calculate_stats str_of
          [Row \<lparr>col_pearlLevel = PStr ''L1'', col_groundTruth = PNone,
                col_difficulty = PNone, col_trapType = PNone, col_finalScore = PFloat 0\<rparr>])
     = Inr [(PStr ''<6.0'', 1)]"
  by code_simp

text \<open>
  Claim C5. A file that is a bare array of records, or an object with a \<^verbatim>\<open>questions\<close>
  array, is loaded without raising in the primary pass and in the fallback pass. The primary
  pass tests \<^verbatim>\<open>isinstance(data, list)\<close>; the fallback pass calls \<^verbatim>\<open>data.get\<close> at once, so
  a directory holding only a combined file that is a bare array ends in \<^verbatim>\<open>AttributeError\<close>,
  while the same records under \<^verbatim>\<open>questions\<close> are loaded.
\<close>

theorem C5_fallback_bare_array_raises:
  "load_questions
     [(''combined.json'', Some (PList [PDict [(''author'', PStr ''deveen@stanford.edu'')]]))]
   = Inl AttributeError
   \<and> load_questions
       [(''combined.json'',
         Some (PDict [(''questions'', PList [PDict [(''author'', PStr ''deveen@stanford.edu'')]])]))]
     = Inr ([PDict [(''author'', PStr ''deveen@stanford.edu'')]],
            [(PStr ''Deveen'', [PDict [(''author'', PStr ''deveen@stanford.edu'')]])])"
  by code_simp

text \<open>
  Claim C6, as the code has it. Both normalizations are total and idempotent. That of the
  dataset analysis, \<^verbatim>\<open>_norm_difficulty\<close>, returns one of EASY, MEDIUM, HARD, UNKNOWN; it gives
  the same result on two strings that differ in case only; it returns EASY exactly when the
  trimmed, lower-cased text is \<^verbatim>\<open>easy\<close> or \<^verbatim>\<open>e\<close>, MEDIUM exactly on \<^verbatim>\<open>medium\<close>,
  \<^verbatim>\<open>med\<close>, \<^verbatim>\<open>m\<close>, HARD exactly on \<^verbatim>\<open>hard\<close>, \<^verbatim>\<open>h\<close>, and UNKNOWN otherwise and on
  \<^verbatim>\<open>None\<close>. That of \<^verbatim>\<open>calculate_stats\<close> keeps the exact strings \<^verbatim>\<open>'Easy'\<close>,
  \<^verbatim>\<open>'Medium'\<close>, \<^verbatim>\<open>'Hard'\<close> and maps everything else to \<^verbatim>\<open>'Unknown'\<close>.
\<close>

theorem C6_difficulty_normalization:
  "norm_difficulty str_of (PStr (norm_difficulty str_of x)) = norm_difficulty str_of x
   \<and> norm_difficulty str_of x \<in> {''EASY'', ''MEDIUM'', ''HARD'', ''UNKNOWN''}
   \<and> (lower s = lower t \<longrightarrow> norm_difficulty str_of (PStr s) = norm_difficulty str_of (PStr t))
   \<and> (norm_difficulty str_of x = ''EASY'' \<longleftrightarrow> lower (norm_str str_of x) \<in> {''easy'', ''e''})
   \<and> (norm_difficulty str_of x = ''MEDIUM'' \<longleftrightarrow> lower (norm_str str_of x) \<in> {''medium'', ''med'', ''m''})
   \<and> (norm_difficulty str_of x = ''HARD'' \<longleftrightarrow> lower (norm_str str_of x) \<in> {''hard'', ''h''})
   \<and> norm_difficulty str_of PNone = ''UNKNOWN''
   \<and> diff_normalized (diff_normalized d) = diff_normalized d
   \<and> diff_normalized d =
       (if d \<in> {PStr ''Easy'', PStr ''Medium'', PStr ''Hard''} then d else PStr ''Unknown'')"
proof -
  have e: "norm_difficulty str_of x = ''EASY'' \<longleftrightarrow> lower (norm_str str_of x) \<in> {''easy'', ''e''}"
    by (simp add: norm_difficulty_def Let_def)
  have m: "norm_difficulty str_of x = ''MEDIUM'' \<longleftrightarrow> lower (norm_str str_of x) \<in> {''medium'', ''med'', ''m''}"
    by (simp add: norm_difficulty_def Let_def)
  have h: "norm_difficulty str_of x = ''HARD'' \<longleftrightarrow> lower (norm_str str_of x) \<in> {''hard'', ''h''}"
    by (simp add: norm_difficulty_def Let_def)
  have n: "norm_difficulty str_of PNone = ''UNKNOWN''"
    by (simp add: norm_difficulty_def norm_str_def lower_def)
  from e m h n norm_difficulty_idem[of str_of x] norm_difficulty_values[of str_of x]
    norm_difficulty_case_insensitive[of s t str_of] diff_normalized_idem[of d]
    diff_normalized_eq[of d]
  show ?thesis by blast
qed

text \<open>The theorem on \<^verbatim>\<open>"EaSy"\<close>, \<^verbatim>\<open>"  MED "\<close>, \<^verbatim>\<open>'Hard'\<close> and \<^verbatim>\<open>'hard'\<close>.\<close>

theorem C6_witness:
  "lower ''EaSy'' = lower ''easy''
   \<and> norm_difficulty str_plain (PStr ''EaSy'') = ''EASY''
   \<and> norm_difficulty str_plain (PStr ''  MED '') = ''MEDIUM''
   \<and> norm_difficulty str_plain (PStr (norm_difficulty str_plain (PStr ''  MED ''))) = ''MEDIUM''
   \<and> diff_normalized (PStr ''Hard'') = PStr ''Hard''
   \<and> diff_normalized (PStr ''hard'') = PStr ''Unknown''"
proof -
  have l: "lower ''EaSy'' = lower ''easy''" by code_simp
  have a: "norm_difficulty str_plain (PStr ''easy'') = ''EASY''" by code_simp
  have b: "norm_difficulty str_plain (PStr ''  MED '') = ''MEDIUM''" by code_simp
  note t = C6_difficulty_normalization[of str_plain "PStr ''  MED ''" "''EaSy''" "''easy''" "PStr ''Hard''"]
  note u = C6_difficulty_normalization[of str_plain "PStr ''  MED ''" "''EaSy''" "''easy''" "PStr ''hard''"]
  from t l a have 1: "norm_difficulty str_plain (PStr ''EaSy'') = ''EASY''" by simp
  from t b have 2: "norm_difficulty str_plain (PStr (norm_difficulty str_plain (PStr ''  MED ''))) = ''MEDIUM''"
    by simp
  from t have 3: "diff_normalized (PStr ''Hard'') = PStr ''Hard''" by simp
  from u have 4: "diff_normalized (PStr ''hard'') = PStr ''Unknown''" by simp
  from l 1 b 2 3 4 show ?thesis by blast
qed

text \<open>
  Against C6 as stated: \<^verbatim>\<open>calculate_stats\<close> counts the difficulty \<^verbatim>\<open>'easy'\<close> under
  \<^verbatim>\<open>'Unknown'\<close>, apart from \<^verbatim>\<open>'Easy'\<close>.
\<close>

theorem C6_counterexample:
  "map_sum id difficulty
     (calculate_stats str_plain
        [Row \<lparr>col_pearlLevel = PStr ''L1'', col_groundTruth = PStr ''YES'',
              col_difficulty = PStr ''easy'', col_trapType = PNone, col_finalScore = PNone\<rparr>,
         Row \<lparr>col_pearlLevel = PStr ''L1'', col_groundTruth = PStr ''YES'',
              col_difficulty = PStr ''Easy'', col_trapType = PNone, col_finalScore = PNone\<rparr>])
   = Inr [(PStr ''Unknown'', 1), (PStr ''Easy'', 1)]"
  by code_simp








text \<open>
  Claim C10. Whenever the loader returns, the records of its author buckets are, as a
  multiset, the records of the full set: every record is in exactly one bucket, and the sizes
  of the buckets sum to the number of records. This holds for the primary and the fallback
  pass.
\<close>

theorem C10_author_buckets_partition:
  assumes "load_questions dir = Inr (all_questions, by_author)"
  shows "mset (concat (map snd by_author)) = mset all_questions
       \<and> sum_list (map (\<lambda>b. length (snd b)) by_author) = length all_questions"
proof -
  have m: "mset (concat (map snd by_author)) = mset all_questions"
    using load_questions_partition[OF assms] by (simp add: bucket_records_def)
  have "length (concat (map snd by_author)) = length all_questions"
    using m by (metis size_mset)
  then have "sum_list (map (\<lambda>b. length (snd b)) by_author) = length all_questions"
    by (simp add: length_concat comp_def)
  with m show ?thesis by simp
qed

text \<open>A directory read by the primary pass, and one read by the fallback pass.\<close>

theorem C10_witness:
  "load_questions example_dir
     = Inr ([PDict record_yes, record_no_a],
            [(PStr ''Deveen'', [PDict record_yes]), (PStr ''Tony'', [record_no_a])])
   \<and> sum_list (map (\<lambda>b. length (snd b))
        [(PStr ''Deveen'', [PDict record_yes]), (PStr ''Tony'', [record_no_a])]) = 2
   \<and> load_questions combined_only
     = Inr ([PDict [(''author'', PStr ''julih@stanford.edu'')],
             PDict [(''author'', PStr ''someone@example.org'')], PDict []],
            [(PStr ''Juli'', [PDict [(''author'', PStr ''julih@stanford.edu'')]]),
             (PStr ''someone@example.org'', [PDict [(''author'', PStr ''someone@example.org'')]]),
             (PStr ''Unknown'', [PDict []])])
   \<and> sum_list (map (\<lambda>b. length (snd b))
        [(PStr ''Juli'', [PDict [(''author'', PStr ''julih@stanford.edu'')]]),
         (PStr ''someone@example.org'', [PDict [(''author'', PStr ''someone@example.org'')]]),
         (PStr ''Unknown'', [PDict []])]) = 3"
proof -
  have h1: "load_questions example_dir
     = Inr ([PDict record_yes, record_no_a],
            [(PStr ''Deveen'', [PDict record_yes]), (PStr ''Tony'', [record_no_a])])"
    by code_simp
  have h2: "load_questions combined_only
     = Inr ([PDict [(''author'', PStr ''julih@stanford.edu'')],
             PDict [(''author'', PStr ''someone@example.org'')], PDict []],
            [(PStr ''Juli'', [PDict [(''author'', PStr ''julih@stanford.edu'')]]),
             (PStr ''someone@example.org'', [PDict [(''author'', PStr ''someone@example.org'')]]),
             (PStr ''Unknown'', [PDict []])])"
    by code_simp
  from C10_author_buckets_partition[OF h1] C10_author_buckets_partition[OF h2] h1 h2
  show ?thesis by simp
qed

end
